theory Spec2Isabelle
  imports Main
begin

section \<open>The asynchronous message loop (messages/eventloop.py)\<close>

text \<open>
  A Python object handed to the loop is known to the loop only through attribute
  probing: \<^verbatim>\<open>hasattr(msg, 'send')\<close>. An object is modelled by an identity and
  the names of the attributes it exposes.
\<close>

record pyobject =
  ident :: nat
  attributes :: "string list"

definition hasattr :: "pyobject \<Rightarrow> string \<Rightarrow> bool" where
  "hasattr obj name = (name \<in> set (attributes obj))"

text \<open>
  \<^verbatim>\<open>MessageLoop\<close> holds the deque \<^verbatim>\<open>self.messages\<close>. The second component is
  the part of the gevent hub the loop writes to: the greenlets created by
  \<^verbatim>\<open>gevent.spawn(msg.send)\<close>, in creation order. \<^verbatim>\<open>gevent.spawn\<close> registers
  the greenlet and returns; it does not run it.
\<close>

record message_loop =
  messages :: "pyobject list"
  spawned :: "pyobject list"

text \<open>\<^verbatim>\<open>MessageLoop.__init__\<close>: an empty deque.\<close>

definition MessageLoop_init :: "pyobject list \<Rightarrow> message_loop" where
  "MessageLoop_init hub = \<lparr>messages = [], spawned = hub\<rparr>"

text \<open>
  One pass through the body of the \<^verbatim>\<open>while\<close> loop of \<^verbatim>\<open>send_loop\<close>:
  \<^verbatim>\<open>msg = self.messages.popleft()\<close>, then the spawn under \<^verbatim>\<open>hasattr\<close>.
  The body only runs on a non-empty deque; \<^verbatim>\<open>popleft\<close> on an empty deque
  (an IndexError in Python) is never reached, and the model leaves the state as it is
  there.
\<close>

definition send_loop_body :: "message_loop \<Rightarrow> message_loop" where
  "send_loop_body s =
     (case messages s of
        [] \<Rightarrow> s
      | msg # rest \<Rightarrow>
          (if hasattr msg ''send''
           then s\<lparr>messages := rest, spawned := spawned s @ [msg]\<rparr>
           else s\<lparr>messages := rest\<rparr>))"

text \<open>
  \<^verbatim>\<open>send_loop\<close>: \<^verbatim>\<open>while self.messages: ...\<close>. The loop is a partial function:
  \<open>None\<close> stands for a loop that never returns.
\<close>

partial_function (option) send_loop :: "message_loop \<Rightarrow> message_loop option" where
  "send_loop s = (if messages s \<noteq> [] then send_loop (send_loop_body s) else Some s)"

text \<open>\<^verbatim>\<open>add_message\<close>: \<^verbatim>\<open>self.messages.append(message)\<close>, then \<^verbatim>\<open>self.send_loop()\<close>.\<close>

definition add_message :: "message_loop \<Rightarrow> pyobject \<Rightarrow> message_loop option" where
  "add_message s msg = send_loop (s\<lparr>messages := messages s @ [msg]\<rparr>)"

text \<open>
  A caller that enqueues several messages one after the other; a call that does not
  return keeps the later ones from happening.
\<close>

fun add_messages :: "message_loop \<Rightarrow> pyobject list \<Rightarrow> message_loop option" where
  "add_messages s [] = Some s"
| "add_messages s (m # ms) =
     (case add_message s m of None \<Rightarrow> None | Some s' \<Rightarrow> add_messages s' ms)"

section \<open>The Telegram adapter (messages/telegram.py)\<close>

subsection \<open>Python values, exceptions and the outside world\<close>

text \<open>
  The values a payload dict can hold, the exceptions the modelled code can raise, and
  parsed JSON as \<^verbatim>\<open>Response.json()\<close> returns it.
\<close>

datatype pyval = PNone | PStr string | PInt int | PBool bool

datatype py_error =
  KeyError | TypeError | UnboundLocalError | ValueError | ConnectionError | ConfigurationError

datatype json =
  JNull | JBool bool | JNum int | JStr string | JList "json list" | JDict "(string \<times> json) list"

type_synonym pydict = "string \<rightharpoonup> pyval"

datatype request = Post string pydict | Get string

record response =
  status_code :: int
  text' :: string
  json_body :: "json option"

text \<open>
  The world outside the adapter: the network calls issued so far, in order, and the
  lines printed so far (one entry for each call of \<^verbatim>\<open>print\<close>).
\<close>

record world =
  requests :: "request list"
  stdout :: "string list"

text \<open>
  What the code calls and does not define: \<^verbatim>\<open>requests.post\<close> and
  \<^verbatim>\<open>requests.get\<close> (one function \<open>http\<close> of the calls made before and the
  call made now, returning a response or raising), \<^verbatim>\<open>timestamp\<close> of
  \<^verbatim>\<open>messages/_utils.py\<close>, and Python's conversion of a list of strings to text.
\<close>

record env =
  http :: "request list \<Rightarrow> request \<Rightarrow> py_error + response"
  timestamp :: "world \<Rightarrow> string"
  repr_list :: "string list \<Rightarrow> string"

text \<open>The attributes of a \<^verbatim>\<open>TelegramBot\<close>; \<open>from'\<close> is the attribute \<^verbatim>\<open>from_\<close>.\<close>

record telegram =
  from' :: "string option"
  credentials :: string
  chat_id :: "string option"
  to :: "string option"
  subject :: "string option"
  body :: string
  attachments :: "string list"
  params :: pydict
  base_url :: string
  message :: pydict
  verbose :: bool

type_synonym state = "telegram \<times> world"

text \<open>
  A method call returns a value or raises, and leaves a state behind in both cases.
  \<open>and_then\<close> is sequencing: an exception skips what follows.
\<close>

type_synonym 'a outcome = "(py_error + 'a) \<times> state"

definition and_then :: "'a outcome \<Rightarrow> ('a \<Rightarrow> state \<Rightarrow> 'b outcome) \<Rightarrow> 'b outcome" where
  "and_then r f = (case fst r of Inl e \<Rightarrow> (Inl e, snd r) | Inr x \<Rightarrow> f x (snd r))"

definition nl :: string where
  "nl = [CHR 0x0A]"

definition print_line :: "string \<Rightarrow> world \<Rightarrow> world" where
  "print_line line w = w\<lparr>stdout := stdout w @ [line]\<rparr>"

definition py_of :: "string option \<Rightarrow> pyval" where
  "py_of v = (case v of None \<Rightarrow> PNone | Some s \<Rightarrow> PStr s)"

text \<open>\<^verbatim>\<open>'{}'.format(v)\<close> for \<^verbatim>\<open>None\<close> or a string.\<close>

definition format_str :: "string option \<Rightarrow> string" where
  "format_str v = (case v of None \<Rightarrow> ''None'' | Some s \<Rightarrow> s)"

subsection \<open>\<^verbatim>\<open>construct_message\<close>\<close>

text \<open>
  \<^verbatim>\<open>self.message['text'] += s\<close> reads the entry and writes it back; it raises
  KeyError without the entry and TypeError when the entry is not a string.
\<close>

definition iadd_text :: "pydict \<Rightarrow> string \<Rightarrow> py_error + pydict" where
  "iadd_text m s =
     (case m ''text'' of
        None \<Rightarrow> Inl KeyError
      | Some (PStr t) \<Rightarrow> Inr (m(''text'' \<mapsto> PStr (t @ s)))
      | Some _ \<Rightarrow> Inl TypeError)"

text \<open>
  The two guarded lines: \<^verbatim>\<open>if self.from_:\<close> and \<^verbatim>\<open>if self.subject:\<close> hold for a
  string that is not empty.
\<close>

definition add_line :: "string \<Rightarrow> string option \<Rightarrow> pydict \<Rightarrow> py_error + pydict" where
  "add_line label v m =
     (case v of
        None \<Rightarrow> Inr m
      | Some s \<Rightarrow> if s \<noteq> [] then iadd_text m (label @ s @ nl) else Inr m)"

definition construct_message :: "state \<Rightarrow> unit outcome" where
  "construct_message = (\<lambda>(a, w).
     let m0 = (message a)(''chat_id'' \<mapsto> py_of (chat_id a), ''text'' \<mapsto> PStr [])
     in case add_line ''From: '' (from' a) m0 of
          Inl e \<Rightarrow> (Inl e, (a\<lparr>message := m0\<rparr>, w))
        | Inr m1 \<Rightarrow>
       (case add_line ''Subject: '' (subject a) m1 of
          Inl e \<Rightarrow> (Inl e, (a\<lparr>message := m1\<rparr>, w))
        | Inr m2 \<Rightarrow>
       (case iadd_text m2 (body a) of
          Inl e \<Rightarrow> (Inl e, (a\<lparr>message := m2\<rparr>, w))
        | Inr m3 \<Rightarrow> (Inr (), (a\<lparr>message := m3 ++ params a\<rparr>, w)))))"

subsection \<open>\<^verbatim>\<open>send_content\<close>\<close>

text \<open>
  The first \<^verbatim>\<open>if\<close>/\<^verbatim>\<open>elif\<close>: \<^verbatim>\<open>content_type\<close> is bound for the two known
  methods and left unbound (\<open>None\<close>) for any other; for \<^verbatim>\<open>'/sendDocument'\<close> the
  concatenation reads \<^verbatim>\<open>self.message['document']\<close>.
\<close>

definition content_type_of :: "string \<Rightarrow> pydict \<Rightarrow> py_error + string option" where
  "content_type_of method m =
     (if method = ''/sendMessage'' then Inr (Some ''Message body'')
      else if method = ''/sendDocument'' then
        (case m ''document'' of
           None \<Rightarrow> Inl KeyError
         | Some (PStr d) \<Rightarrow> Inr (Some (''Attachment: '' @ d))
         | Some _ \<Rightarrow> Inl TypeError)
      else Inr None)"

text \<open>A \<^verbatim>\<open>print\<close> that mentions \<^verbatim>\<open>content_type\<close>: UnboundLocalError when it is unbound.\<close>

definition print_with :: "string option \<Rightarrow> (string \<Rightarrow> string) \<Rightarrow> state \<Rightarrow> unit outcome" where
  "print_with ct line = (\<lambda>(a, w).
     case ct of
       None \<Rightarrow> (Inl UnboundLocalError, (a, w))
     | Some c \<Rightarrow> (Inr (), (a, print_line (line c) w)))"

definition send_content :: "env \<Rightarrow> string \<Rightarrow> state \<Rightarrow> unit outcome" where
  "send_content E method = (\<lambda>(a, w).
     case content_type_of method (message a) of
       Inl e \<Rightarrow> (Inl e, (a, w))
     | Inr ct \<Rightarrow>
         let req = Post (base_url a @ method) (message a);
             w1 = w\<lparr>requests := requests w @ [req]\<rparr>
         in case http E (requests w) req of
              Inl e \<Rightarrow> (Inl e, (a, w1))
            | Inr r \<Rightarrow>
                and_then
                  (if status_code r = 200 \<and> verbose a
                   then print_with ct (\<lambda>c. timestamp E w1 @ '' '' @ c @ '' sent.'') (a, w1)
                   else (Inr (), (a, w1)))
                  (\<lambda>_ (a2, w2).
                     if status_code r > 300 \<and> verbose a2
                     then and_then
                            (print_with ct
                               (\<lambda>c. timestamp E w2 @ '' '' @ ''Error while sending '' @ c) (a2, w2))
                            (\<lambda>_ (a3, w3). (Inr (), (a3, print_line (text' r) w3)))
                     else (Inr (), (a2, w2))))"

subsection \<open>\<^verbatim>\<open>__str__\<close> and \<^verbatim>\<open>send\<close>\<close>

definition TelegramBot_str :: "env \<Rightarrow> telegram \<Rightarrow> string \<Rightarrow> string" where
  "TelegramBot_str E a indentation =
     indentation @ ''From: '' @ format_str (from' a)
     @ indentation @ ''To: '' @ format_str (to a)
     @ indentation @ ''Chat ID: '' @ format_str (chat_id a)
     @ indentation @ ''Subject: '' @ format_str (subject a)
     @ indentation @ ''Body: '' @ take 40 (body a) @ ''...''
     @ indentation @ ''Attachments: '' @ repr_list E (attachments a)"

text \<open>
  The \<^verbatim>\<open>for a in self.attachments\<close> loop of \<^verbatim>\<open>send\<close>, over the attachments still
  to go: set \<^verbatim>\<open>self.message['document']\<close>, then \<^verbatim>\<open>send_content('/sendDocument')\<close>.
\<close>

fun send_attachments :: "env \<Rightarrow> string list \<Rightarrow> state \<Rightarrow> unit outcome" where
  "send_attachments E [] s = (Inr (), s)"
| "send_attachments E (d # ds) s =
     and_then
       (send_content E ''/sendDocument''
          ((fst s)\<lparr>message := (message (fst s))(''document'' \<mapsto> PStr d)\<rparr>, snd s))
       (\<lambda>_ s'. send_attachments E ds s')"

definition send :: "env \<Rightarrow> state \<Rightarrow> unit outcome" where
  "send E s =
     and_then (construct_message s) (\<lambda>_ (a1, w1).
     and_then
       (send_content E ''/sendMessage''
          (a1, if verbose a1
               then print_line (''Debugging info'' @ nl @ ''--------------'' @ nl
                                @ timestamp E w1 @ '' Message created.'') w1
               else w1))
       (\<lambda>_ (a2, w2).
     and_then (send_attachments E (attachments a2) (a2, w2)) (\<lambda>_ (a3, w3).
       (Inr (),
        (a3, print_line ''Message sent.''
               (if verbose a3
                then print_line (timestamp E w3 @ '' '' @ ''TelegramBot info:'' @ '' ''
                                 @ TelegramBot_str E a3 (nl @ '' * '')) w3
                else w3))))))"

subsection \<open>\<^verbatim>\<open>get_chat_id\<close>\<close>

text \<open>Python's \<^verbatim>\<open>x[key]\<close> with a string key, on parsed JSON.\<close>

definition subscript :: "json \<Rightarrow> string \<Rightarrow> py_error + json" where
  "subscript x key =
     (case x of
        JDict kvs \<Rightarrow> (case map_of kvs key of None \<Rightarrow> Inl KeyError | Some v \<Rightarrow> Inr v)
      | _ \<Rightarrow> Inl TypeError)"

text \<open>What \<^verbatim>\<open>for chat in x\<close> iterates over: list items, dict keys, the characters of a string.\<close>

definition iterate :: "json \<Rightarrow> py_error + json list" where
  "iterate x =
     (case x of
        JList xs \<Rightarrow> Inr xs
      | JDict kvs \<Rightarrow> Inr (map (\<lambda>kv. JStr (fst kv)) kvs)
      | JStr s \<Rightarrow> Inr (map (\<lambda>c. JStr [c]) s)
      | _ \<Rightarrow> Inl TypeError)"

text \<open>\<^verbatim>\<open>str.split(sep)\<close> for a separator of one character.\<close>

fun split_on :: "char \<Rightarrow> string \<Rightarrow> string list" where
  "split_on sep [] = [[]]"
| "split_on sep (c # cs) =
     (if c = sep then [] # split_on sep cs
      else (case split_on sep cs of
              [] \<Rightarrow> [[c]]
            | seg # segs \<Rightarrow> (c # seg) # segs))"

text \<open>\<^verbatim>\<open>chat['message']['from'][key]\<close>.\<close>

definition from_field :: "json \<Rightarrow> string \<Rightarrow> py_error + json" where
  "from_field chat key =
     (case subscript chat ''message'' of
        Inl e \<Rightarrow> Inl e
      | Inr m \<Rightarrow>
          (case subscript m ''from'' of
             Inl e \<Rightarrow> Inl e
           | Inr f \<Rightarrow> subscript f key))"

text \<open>The \<^verbatim>\<open>for\<close> loop of \<^verbatim>\<open>get_chat_id\<close>; falling off its end returns \<^verbatim>\<open>None\<close>.\<close>

fun find_chat :: "string \<Rightarrow> json list \<Rightarrow> py_error + json" where
  "find_chat user [] = Inr JNull"
| "find_chat user (chat # chats) =
     (case from_field chat ''username'' of
        Inl e \<Rightarrow> Inl e
      | Inr name \<Rightarrow>
          if name = JStr user then from_field chat ''id'' else find_chat user chats)"

definition get_chat_id :: "env \<Rightarrow> string option \<Rightarrow> state \<Rightarrow> json outcome" where
  "get_chat_id E username = (\<lambda>(a, w).
     case username of
       None \<Rightarrow> (Inr JNull, (a, w))
     | Some name \<Rightarrow>
         let req = Get (base_url a @ ''/getUpdates'');
             w1 = w\<lparr>requests := requests w @ [req]\<rparr>
         in case http E (requests w) req of
              Inl e \<Rightarrow> (Inl e, (a, w1))
            | Inr r \<Rightarrow>
                (case json_body r of
                   None \<Rightarrow> (Inl ValueError, (a, w1))
                 | Some chats \<Rightarrow>
                     let user = last (split_on CHR ''@'' name)
                     in (case subscript chats ''result'' of
                           Inl e \<Rightarrow> (Inl e, (a, w1))
                         | Inr result \<Rightarrow>
                             (case iterate result of
                                Inl e \<Rightarrow> (Inl e, (a, w1))
                              | Inr items \<Rightarrow> (find_chat user items, (a, w1))))))"

subsection \<open>\<^verbatim>\<open>__init__\<close>\<close>









subsection \<open>Example inputs\<close>

text \<open>
  Concrete inputs for the examples below: a server that answers every call with one
  status code, an adapter with sender, subject, body and two attachments, the keyword
  arguments that construct it, a credential store that resolves nothing, a world in
  which nothing has happened yet, and a server whose \<^verbatim>\<open>getUpdates\<close> holds one
  message from the user \<^verbatim>\<open>alice\<close>.
\<close>

definition example_response :: "int \<Rightarrow> response" where
  "example_response code = \<lparr>status_code = code, text' = ''response text'', json_body = None\<rparr>"

definition example_env :: "int \<Rightarrow> env" where
  "example_env code =
     \<lparr>http = (\<lambda>h q. Inr (example_response code)),
      timestamp = (\<lambda>w. ''12:00:00''),
      repr_list = (\<lambda>xs. ''[...]'')\<rparr>"

definition example_bot :: telegram where
  "example_bot =
     \<lparr>from' = Some ''Bob'', credentials = ''TOKEN'', chat_id = Some ''42'', to = None,
      subject = Some ''Hi'', body = ''Hello'', attachments = [''a.pdf'', ''b.pdf''],
      params = Map.empty, base_url = ''https://api.telegram.org/botTOKEN'',
      message = Map.empty, verbose = False\<rparr>"



definition empty_world :: world where
  "empty_world = \<lparr>requests = [], stdout = []\<rparr>"

definition updates_response :: response where
  "updates_response =
     \<lparr>status_code = 200, text' = ''{...}'',
      json_body = Some (JDict [(''ok'', JBool True),
        (''result'', JList [JDict [(''update_id'', JNum 1),
           (''message'', JDict [(''from'', JDict [(''id'', JNum 42), (''username'', JStr ''alice'')]),
                                (''text'', JStr ''/start'')])]])])\<rparr>"

definition lookup_env :: env where
  "lookup_env =
     \<lparr>http = (\<lambda>h q. case q of Get u \<Rightarrow> Inr updates_response
                            | Post u p \<Rightarrow> Inr (example_response 400)),
      timestamp = (\<lambda>w. ''12:00:00''),
      repr_list = (\<lambda>xs. ''[...]'')\<rparr>"

section \<open>Properties of the message loop\<close>

lemma send_loop_body_length:
  "messages s \<noteq> [] \<Longrightarrow> length (messages (send_loop_body s)) < length (messages s)"
  by (cases "messages s") (simp_all add: send_loop_body_def)

lemma send_loop_drains:
  "send_loop s =
     Some (s\<lparr>messages := [],
             spawned := spawned s @ filter (\<lambda>m. hasattr m ''send'') (messages s)\<rparr>)"
proof (induction "messages s" arbitrary: s)
  case Nil
  then show ?case
    by (subst send_loop.simps) simp
next
  case (Cons msg rest)
  have ne: "messages s \<noteq> []"
    using Cons.hyps(2) by (metis list.distinct(1))
  have ms: "messages s = msg # rest"
    using Cons.hyps(2) by simp
  show ?case
  proof (cases "hasattr msg ''send''")
    case True
    have body: "send_loop_body s = s\<lparr>messages := rest, spawned := spawned s @ [msg]\<rparr>"
      by (simp add: send_loop_body_def ms True)
    have "send_loop s = send_loop (send_loop_body s)"
      using ne by (subst send_loop.simps) simp
    also have "\<dots> = Some ((send_loop_body s)\<lparr>messages := [],
        spawned := spawned (send_loop_body s)
          @ filter (\<lambda>m. hasattr m ''send'') (messages (send_loop_body s))\<rparr>)"
      by (rule Cons.hyps(1)) (simp add: body)
    finally show ?thesis
      by (simp add: body ms True)
  next
    case False
    have body: "send_loop_body s = s\<lparr>messages := rest\<rparr>"
      by (simp add: send_loop_body_def ms False)
    have "send_loop s = send_loop (send_loop_body s)"
      using ne by (subst send_loop.simps) simp
    also have "\<dots> = Some ((send_loop_body s)\<lparr>messages := [],
        spawned := spawned (send_loop_body s)
          @ filter (\<lambda>m. hasattr m ''send'') (messages (send_loop_body s))\<rparr>)"
      by (rule Cons.hyps(1)) (simp add: body)
    finally show ?thesis
      by (simp add: body ms False)
  qed
qed

lemma send_loop_body_funpow:
  "(send_loop_body ^^ length (messages s)) s =
     s\<lparr>messages := [],
       spawned := spawned s @ filter (\<lambda>m. hasattr m ''send'') (messages s)\<rparr>"
proof (induction "messages s" arbitrary: s)
  case Nil
  then show ?case by simp
next
  case (Cons msg rest)
  have ms: "messages s = msg # rest"
    using Cons.hyps(2) by simp
  have len: "length (messages s) = Suc (length rest)"
    by (simp add: ms)
  have rest: "rest = messages (send_loop_body s)"
    by (simp add: send_loop_body_def ms)
  have "(send_loop_body ^^ length (messages s)) s
      = (send_loop_body ^^ length (messages (send_loop_body s))) (send_loop_body s)"
    unfolding len by (simp add: funpow_swap1 rest [symmetric])
  also have "\<dots> = (send_loop_body s)\<lparr>messages := [],
        spawned := spawned (send_loop_body s)
          @ filter (\<lambda>m. hasattr m ''send'') (messages (send_loop_body s))\<rparr>"
    by (rule Cons.hyps(1)) (rule rest)
  finally show ?case
    by (simp add: send_loop_body_def ms)
qed

lemma add_message_result:
  "add_message s m =
     Some (s\<lparr>messages := [],
             spawned := spawned s @ filter (\<lambda>m. hasattr m ''send'') (messages s @ [m])\<rparr>)"
  by (simp add: add_message_def send_loop_drains)

lemma add_messages_result:
  "add_messages s ms =
     Some (s\<lparr>messages := (if ms = [] then messages s else []),
             spawned := spawned s @ filter (\<lambda>m. hasattr m ''send'')
                          ((if ms = [] then [] else messages s) @ ms)\<rparr>)"
proof (induction ms arbitrary: s)
  case Nil
  show ?case by simp
next
  case (Cons m ms)
  show ?case
    by (simp add: add_message_result Cons.IH)
qed

lemma send_loop_body_messages: "messages (send_loop_body s) = tl (messages s)"
  by (cases "messages s") (simp_all add: send_loop_body_def)

lemma send_loop_body_funpow_messages:
  "messages ((send_loop_body ^^ k) s) = drop k (messages s)"
proof (induction k arbitrary: s)
  case 0
  show ?case by simp
next
  case (Suc k)
  have "messages ((send_loop_body ^^ Suc k) s) = drop k (messages (send_loop_body s))"
    by (simp add: funpow_swap1 Suc.IH)
  then show ?case
    by (simp add: send_loop_body_messages drop_Suc)
qed

text \<open>
  C1. Messages passed to \<^verbatim>\<open>add_message\<close> one after the other, starting from the
  loop as the module creates it, reach \<^verbatim>\<open>gevent.spawn\<close> in the order in which they
  were enqueued: the greenlets spawned are exactly the enqueued messages that expose
  \<^verbatim>\<open>send\<close>, in enqueue order, and the deque is left empty.
\<close>

theorem scheduling_order_is_enqueue_order:
  "add_messages (MessageLoop_init hub) ms =
     Some \<lparr>messages = [], spawned = hub @ filter (\<lambda>m. hasattr m ''send'') ms\<rparr>"
  by (simp add: add_messages_result MessageLoop_init_def)

theorem scheduling_order_is_enqueue_order_witness:
  "add_messages (MessageLoop_init [])
     [\<lparr>ident = 1, attributes = [''construct_message'', ''send'']\<rparr>,
      \<lparr>ident = 2, attributes = [''send'']\<rparr>,
      \<lparr>ident = 3, attributes = [''send'', ''send_async'']\<rparr>] =
   Some \<lparr>messages = [],
         spawned = [\<lparr>ident = 1, attributes = [''construct_message'', ''send'']\<rparr>,
                    \<lparr>ident = 2, attributes = [''send'']\<rparr>,
                    \<lparr>ident = 3, attributes = [''send'', ''send_async'']\<rparr>]\<rparr>"
  using scheduling_order_is_enqueue_order
    [of "[]" "[\<lparr>ident = 1, attributes = [''construct_message'', ''send'']\<rparr>,
      \<lparr>ident = 2, attributes = [''send'']\<rparr>,
      \<lparr>ident = 3, attributes = [''send'', ''send_async'']\<rparr>]"]
  by (simp add: hasattr_def)

text \<open>
  C4. An object without a \<^verbatim>\<open>send\<close> attribute passed to \<^verbatim>\<open>add_message\<close>: the
  call returns, the deque is left empty and no greenlet is spawned for the object
  (only for what was waiting in the deque and exposes \<^verbatim>\<open>send\<close>). In a
  sequence of enqueued messages it leaves no trace: the messages before and after it
  are scheduled as if it had not been enqueued.
\<close>

theorem object_without_send_is_dropped:
  assumes "\<not> hasattr obj ''send''"
  shows "add_message s obj =
           Some (s\<lparr>messages := [],
                   spawned := spawned s @ filter (\<lambda>m. hasattr m ''send'') (messages s)\<rparr>)
         \<and> add_messages (MessageLoop_init hub) (before @ obj # after) =
             Some \<lparr>messages = [],
                   spawned = hub @ filter (\<lambda>m. hasattr m ''send'') (before @ after)\<rparr>"
  using assms by (simp add: add_message_result add_messages_result MessageLoop_init_def)

theorem object_without_send_is_dropped_witness:
  "\<not> hasattr \<lparr>ident = 7, attributes = [''body'']\<rparr> ''send''
   \<and> add_message \<lparr>messages = [], spawned = []\<rparr> \<lparr>ident = 7, attributes = [''body'']\<rparr> =
       Some \<lparr>messages = [], spawned = []\<rparr>
   \<and> add_messages (MessageLoop_init [])
        [\<lparr>ident = 1, attributes = [''send'']\<rparr>,
         \<lparr>ident = 7, attributes = [''body'']\<rparr>,
         \<lparr>ident = 2, attributes = [''send'']\<rparr>] =
       Some \<lparr>messages = [],
             spawned = [\<lparr>ident = 1, attributes = [''send'']\<rparr>,
                        \<lparr>ident = 2, attributes = [''send'']\<rparr>]\<rparr>"
proof -
  have h: "\<not> hasattr \<lparr>ident = 7, attributes = [''body'']\<rparr> ''send''"
    by (simp add: hasattr_def)
  show ?thesis
    using h object_without_send_is_dropped
      [OF h, of "\<lparr>messages = [], spawned = []\<rparr>" "[]"
         "[\<lparr>ident = 1, attributes = [''send'']\<rparr>]" "[\<lparr>ident = 2, attributes = [''send'']\<rparr>]"]
    by (simp add: hasattr_def)
qed

text \<open>
  C9. The drain step returns on every queue: it is the loop body run once for each
  element of the deque, the body takes one element off the head each time it runs, and
  the deque is empty at the end. The body spawns and never runs or awaits a greenlet.
  So \<^verbatim>\<open>add_message\<close> returns on every queue, however long, with the deque empty.
\<close>

theorem send_loop_terminates:
  "send_loop s = Some ((send_loop_body ^^ length (messages s)) s)
   \<and> messages ((send_loop_body ^^ k) s) = drop k (messages s)
   \<and> messages ((send_loop_body ^^ length (messages s)) s) = []
   \<and> (\<exists>s'. add_message s msg = Some s' \<and> messages s' = [])"
  by (simp add: send_loop_drains send_loop_body_funpow send_loop_body_funpow_messages
      add_message_result)

theorem send_loop_terminates_witness:
  "send_loop \<lparr>messages = [\<lparr>ident = 1, attributes = [''send'']\<rparr>,
                            \<lparr>ident = 2, attributes = []\<rparr>], spawned = []\<rparr> =
     Some \<lparr>messages = [], spawned = [\<lparr>ident = 1, attributes = [''send'']\<rparr>]\<rparr>"
  using send_loop_terminates
    [of "\<lparr>messages = [\<lparr>ident = 1, attributes = [''send'']\<rparr>,
                         \<lparr>ident = 2, attributes = []\<rparr>], spawned = []\<rparr>" 0
        "\<lparr>ident = 3, attributes = []\<rparr>"]
  by (simp add: numeral_2_eq_2 send_loop_body_def hasattr_def)

section \<open>Properties of the Telegram adapter\<close>

subsection \<open>Closed forms of the methods\<close>

lemma iadd_text_eq:
  "m ''text'' = Some (PStr t) \<Longrightarrow> iadd_text m s = Inr (m(''text'' \<mapsto> PStr (t @ s)))"
  by (simp add: iadd_text_def)

lemma add_line_eq:
  "m ''text'' = Some (PStr t) \<Longrightarrow>
   add_line label v m =
     Inr (m(''text'' \<mapsto> PStr (t @ (case v of None \<Rightarrow> []
                                       | Some s \<Rightarrow> if s \<noteq> [] then label @ s @ nl else []))))"
  by (auto simp: add_line_def iadd_text_def split: option.splits)

lemma construct_message_eq:
  "construct_message (a, w) =
     (Inr (),
      (a\<lparr>message :=
           (message a)(''chat_id'' \<mapsto> py_of (chat_id a),
                       ''text'' \<mapsto> PStr
                         ((case from' a of None \<Rightarrow> []
                           | Some s \<Rightarrow> if s \<noteq> [] then ''From: '' @ s @ nl else [])
                          @ (case subject a of None \<Rightarrow> []
                             | Some s \<Rightarrow> if s \<noteq> [] then ''Subject: '' @ s @ nl else [])
                          @ body a))
           ++ params a\<rparr>, w))"
proof -
  let ?init = "(message a)(''chat_id'' \<mapsto> py_of (chat_id a), ''text'' \<mapsto> PStr [])"
  let ?f = "case from' a of None \<Rightarrow> [] | Some s \<Rightarrow> if s \<noteq> [] then ''From: '' @ s @ nl else []"
  let ?s = "case subject a of None \<Rightarrow> []
            | Some s \<Rightarrow> if s \<noteq> [] then ''Subject: '' @ s @ nl else []"
  let ?upd = "\<lambda>t. (message a)(''chat_id'' \<mapsto> py_of (chat_id a), ''text'' \<mapsto> PStr t)"
  have 1: "add_line ''From: '' (from' a) ?init = Inr (?upd ?f)"
    using add_line_eq [of ?init "[]" "''From: ''" "from' a"] by simp
  have 2: "add_line ''Subject: '' (subject a) (?upd ?f) = Inr (?upd (?f @ ?s))"
    using add_line_eq [of "?upd ?f" ?f "''Subject: ''" "subject a"] by simp
  have 3: "iadd_text (?upd (?f @ ?s)) (body a) = Inr (?upd (?f @ ?s @ body a))"
    using iadd_text_eq [of "?upd (?f @ ?s)" "?f @ ?s" "body a"] by simp
  show ?thesis
    unfolding construct_message_def by (simp add: 1 2 3 Let_def)
qed

lemma and_then_Inr [simp]: "and_then (Inr x, s) f = f x s"
  by (simp add: and_then_def)

lemma and_then_Inl [simp]: "and_then (Inl e, s) f = (Inl e, s)"
  by (simp add: and_then_def)

lemma send_content_returns:
  assumes net: "http E = (\<lambda>h q. Inr (respond h q))"
    and ct: "content_type_of method (message a) = Inr (Some c)"
  shows "send_content E method (a, w) =
    (Inr (),
     (a, w\<lparr>requests := requests w @ [Post (base_url a @ method) (message a)],
            stdout := stdout w @
              (if verbose a \<and> status_code (respond (requests w) (Post (base_url a @ method) (message a))) = 200
               then [timestamp E (w\<lparr>requests := requests w @ [Post (base_url a @ method) (message a)]\<rparr>)
                     @ '' '' @ c @ '' sent.'']
               else if verbose a \<and> status_code (respond (requests w) (Post (base_url a @ method) (message a))) > 300
               then [timestamp E (w\<lparr>requests := requests w @ [Post (base_url a @ method) (message a)]\<rparr>)
                     @ '' '' @ ''Error while sending '' @ c,
                     text' (respond (requests w) (Post (base_url a @ method) (message a)))]
               else [])\<rparr>))"
  by (simp add: send_content_def ct net Let_def print_with_def print_line_def)

lemma send_content_effect:
  assumes net: "http E = (\<lambda>h q. Inr (respond h q))"
    and ct: "content_type_of method (message a) = Inr (Some c)"
  shows "\<exists>out. send_content E method (a, w) =
    (Inr (), (a, \<lparr>requests = requests w @ [Post (base_url a @ method) (message a)], stdout = out\<rparr>))"
  using send_content_returns [OF net ct, of w] by (cases w) auto

lemma send_attachments_effect:
  assumes net: "http E = (\<lambda>h q. Inr (respond h q))"
  shows "\<exists>out. send_attachments E ds (a, w) =
    (Inr (),
     (a\<lparr>message := (if ds = [] then message a else (message a)(''document'' \<mapsto> PStr (last ds)))\<rparr>,
      \<lparr>requests = requests w @
          map (\<lambda>d. Post (base_url a @ ''/sendDocument'') ((message a)(''document'' \<mapsto> PStr d))) ds,
       stdout = out\<rparr>))"
proof (induction ds arbitrary: a w)
  case Nil
  show ?case by (cases w) simp
next
  case (Cons d ds)
  let ?a = "a\<lparr>message := (message a)(''document'' \<mapsto> PStr d)\<rparr>"
  have ct: "content_type_of ''/sendDocument'' (message ?a) = Inr (Some (''Attachment: '' @ d))"
    by (simp add: content_type_of_def)
  obtain out where 1: "send_content E ''/sendDocument'' (?a, w) =
      (Inr (), (?a, \<lparr>requests = requests w @ [Post (base_url ?a @ ''/sendDocument'') (message ?a)],
                      stdout = out\<rparr>))"
    using send_content_effect [OF net ct, of w] by blast
  obtain out' where 2: "send_attachments E ds
      (?a, \<lparr>requests = requests w @ [Post (base_url ?a @ ''/sendDocument'') (message ?a)], stdout = out\<rparr>) =
    (Inr (),
     (?a\<lparr>message := (if ds = [] then message ?a else (message ?a)(''document'' \<mapsto> PStr (last ds)))\<rparr>,
      \<lparr>requests = requests \<lparr>requests = requests w @ [Post (base_url ?a @ ''/sendDocument'') (message ?a)], stdout = out\<rparr> @
          map (\<lambda>d. Post (base_url ?a @ ''/sendDocument'') ((message ?a)(''document'' \<mapsto> PStr d))) ds,
       stdout = out'\<rparr>))"
    using Cons.IH [of ?a "\<lparr>requests = requests w @ [Post (base_url ?a @ ''/sendDocument'') (message ?a)], stdout = out\<rparr>"]
    by blast
  have step: "send_attachments E (d # ds) (a, w) = send_attachments E ds
      (?a, \<lparr>requests = requests w @ [Post (base_url ?a @ ''/sendDocument'') (message ?a)], stdout = out\<rparr>)"
    by (simp add: 1)
  have upd: "?a\<lparr>message := (if ds = [] then message ?a else (message ?a)(''document'' \<mapsto> PStr (last ds)))\<rparr>
      = a\<lparr>message := (message a)(''document'' \<mapsto> PStr (last (d # ds)))\<rparr>"
    by simp
  have reqs: "requests \<lparr>requests = requests w @ [Post (base_url ?a @ ''/sendDocument'') (message ?a)], stdout = out\<rparr> @
          map (\<lambda>d. Post (base_url ?a @ ''/sendDocument'') ((message ?a)(''document'' \<mapsto> PStr d))) ds
      = requests w @ map (\<lambda>d. Post (base_url a @ ''/sendDocument'') ((message a)(''document'' \<mapsto> PStr d))) (d # ds)"
    by simp
  have "send_attachments E (d # ds) (a, w) =
    (Inr (),
     (a\<lparr>message := (message a)(''document'' \<mapsto> PStr (last (d # ds)))\<rparr>,
      \<lparr>requests = requests w @
          map (\<lambda>d. Post (base_url a @ ''/sendDocument'') ((message a)(''document'' \<mapsto> PStr d))) (d # ds),
       stdout = out'\<rparr>))"
    by (simp only: step 2 upd reqs)
  then show ?case
    by (intro exI [of _ out']) (simp only: list.distinct if_False)
qed

lemma send_effect:
  assumes net: "http E = (\<lambda>h q. Inr (respond h q))"
  shows "\<exists>out. send E (a, w) =
    (Inr (),
     (a\<lparr>message := (if attachments a = [] then message (fst (snd (construct_message (a, w))))
                      else (message (fst (snd (construct_message (a, w)))))
                             (''document'' \<mapsto> PStr (last (attachments a))))\<rparr>,
      \<lparr>requests = requests w @
          Post (base_url a @ ''/sendMessage'') (message (fst (snd (construct_message (a, w)))))
          # map (\<lambda>d. Post (base_url a @ ''/sendDocument'')
                         ((message (fst (snd (construct_message (a, w)))))(''document'' \<mapsto> PStr d)))
              (attachments a),
       stdout = out\<rparr>))"
proof -
  obtain M where M: "construct_message (a, w) = (Inr (), (a\<lparr>message := M\<rparr>, w))"
    using construct_message_eq [of a w] by blast
  let ?a = "a\<lparr>message := M\<rparr>"
  let ?w = "if verbose ?a
            then print_line (''Debugging info'' @ nl @ ''--------------'' @ nl
                             @ timestamp E w @ '' Message created.'') w
            else w"
  have rw: "requests ?w = requests w"
    by (simp add: print_line_def)
  have ct: "content_type_of ''/sendMessage'' (message ?a) = Inr (Some ''Message body'')"
    by (simp add: content_type_of_def)
  obtain out1 where 1: "send_content E ''/sendMessage'' (?a, ?w) =
      (Inr (), (?a, \<lparr>requests = requests ?w @ [Post (base_url ?a @ ''/sendMessage'') (message ?a)],
                      stdout = out1\<rparr>))"
    using send_content_effect [OF net ct, of ?w] by blast
  let ?w1 = "\<lparr>requests = requests ?w @ [Post (base_url ?a @ ''/sendMessage'') (message ?a)], stdout = out1\<rparr>"
  obtain out2 where 2: "send_attachments E (attachments ?a) (?a, ?w1) =
    (Inr (),
     (?a\<lparr>message := (if attachments ?a = [] then message ?a
                       else (message ?a)(''document'' \<mapsto> PStr (last (attachments ?a))))\<rparr>,
      \<lparr>requests = requests ?w1 @
          map (\<lambda>d. Post (base_url ?a @ ''/sendDocument'') ((message ?a)(''document'' \<mapsto> PStr d)))
            (attachments ?a),
       stdout = out2\<rparr>))"
    using send_attachments_effect [OF net, of "attachments ?a" ?a ?w1] by blast
  have "\<exists>out. send E (a, w) =
    (Inr (),
     (?a\<lparr>message := (if attachments ?a = [] then message ?a
                       else (message ?a)(''document'' \<mapsto> PStr (last (attachments ?a))))\<rparr>,
      \<lparr>requests = requests ?w1 @
          map (\<lambda>d. Post (base_url ?a @ ''/sendDocument'') ((message ?a)(''document'' \<mapsto> PStr d)))
            (attachments ?a),
       stdout = out\<rparr>))"
    unfolding send_def M by (simp only: and_then_Inr split 1 2) (simp add: print_line_def)
  moreover have "requests (if verbose a
            then print_line (''Debugging info'' @ nl @ ''--------------'' @ nl
                             @ timestamp E w @ '' Message created.'') w
            else w) = requests w"
    by (simp add: print_line_def)
  ultimately show ?thesis
    unfolding M by (cases "attachments a = []") simp_all
qed

subsection \<open>The claims about the adapter\<close>

text \<open>
  C2. With every network call answered by a response, whatever its status,
  \<^verbatim>\<open>send\<close> issues exactly these calls, in this order: one POST to
  \<^verbatim>\<open>/sendMessage\<close> with the constructed payload, then one POST to
  \<^verbatim>\<open>/sendDocument\<close> for each attachment, in list order, with that attachment as
  the payload's \<^verbatim>\<open>document\<close>. That makes 1 + N calls for N attachments; no status
  stops the later calls, and \<^verbatim>\<open>send\<close> returns normally.
\<close>

theorem send_calls:
  assumes "http E = (\<lambda>h q. Inr (respond h q))"
  shows "requests (snd (snd (send E (a, w)))) =
           requests w
           @ Post (base_url a @ ''/sendMessage'') (message (fst (snd (construct_message (a, w)))))
           # map (\<lambda>d. Post (base_url a @ ''/sendDocument'')
                          ((message (fst (snd (construct_message (a, w)))))(''document'' \<mapsto> PStr d)))
               (attachments a)
         \<and> length (requests (snd (snd (send E (a, w))))) =
             length (requests w) + 1 + length (attachments a)
         \<and> fst (send E (a, w)) = Inr ()"
  using send_effect [OF assms, of a w] by auto

theorem send_calls_witness:
  "map (\<lambda>q. case q of Post u p \<Rightarrow> (u, p ''document'') | Get u \<Rightarrow> (u, None))
     (requests (snd (snd (send (example_env 500) (example_bot, empty_world))))) =
   [(''https://api.telegram.org/botTOKEN/sendMessage'', None),
    (''https://api.telegram.org/botTOKEN/sendDocument'', Some (PStr ''a.pdf'')),
    (''https://api.telegram.org/botTOKEN/sendDocument'', Some (PStr ''b.pdf''))]"
proof -
  have net: "http (example_env 500) = (\<lambda>h q. Inr (example_response 500))"
    by (simp add: example_env_def)
  show ?thesis
    using send_calls [OF net, of example_bot empty_world]
    by (simp add: construct_message_eq example_bot_def empty_world_def py_of_def)
qed

text \<open>
  C3, as stated, fails when \<^verbatim>\<open>params\<close> carries a \<^verbatim>\<open>text\<close> key:
  \<^verbatim>\<open>self.message.update(self.params)\<close> runs last and replaces the assembled text.
\<close>

theorem text_overridden_by_params:
  "message (fst (snd (construct_message (example_bot\<lparr>params := [''text'' \<mapsto> PStr ''X'']\<rparr>, empty_world))))
     ''text'' = Some (PStr ''X'')
   \<and> message (fst (snd (construct_message (example_bot\<lparr>params := [''text'' \<mapsto> PStr ''X'']\<rparr>, empty_world))))
     ''text'' \<noteq> Some (PStr (''From: Bob'' @ nl @ ''Subject: Hi'' @ nl @ ''Hello''))"
  by (simp add: construct_message_eq)

text \<open>
  C3, amended. When \<^verbatim>\<open>params\<close> has no \<^verbatim>\<open>text\<close> key, the payload's
  \<^verbatim>\<open>text\<close> after \<^verbatim>\<open>construct_message\<close> is the \<^verbatim>\<open>From:\<close> line (present
  when the sender is a non-empty string), then the \<^verbatim>\<open>Subject:\<close> line (present when
  the subject is a non-empty string), then the body. For sender Bob, subject Hi and body
  Hello it is \<^verbatim>\<open>From: Bob\<close>, newline, \<^verbatim>\<open>Subject: Hi\<close>, newline, \<^verbatim>\<open>Hello\<close>.
\<close>

theorem construct_message_text:
  assumes "params a ''text'' = None"
  shows "message (fst (snd (construct_message (a, w)))) ''text'' =
           Some (PStr ((case from' a of None \<Rightarrow> []
                        | Some s \<Rightarrow> if s \<noteq> [] then ''From: '' @ s @ nl else [])
                       @ (case subject a of None \<Rightarrow> []
                          | Some s \<Rightarrow> if s \<noteq> [] then ''Subject: '' @ s @ nl else [])
                       @ body a))"
  using assms by (simp add: construct_message_eq map_add_def)

theorem construct_message_text_witness:
  "message (fst (snd (construct_message (example_bot, empty_world)))) ''text'' =
     Some (PStr (''From: Bob'' @ [CHR 0x0A] @ ''Subject: Hi'' @ [CHR 0x0A] @ ''Hello''))"
proof -
  have h: "params example_bot ''text'' = None"
    by (simp add: example_bot_def)
  show ?thesis
    using construct_message_text [OF h, of empty_world]
    by (simp add: example_bot_def nl_def)
qed

text \<open>
  C5, as stated, fails on an adapter that is not verbose (the default): every call of
  a \<^verbatim>\<open>send\<close> is answered with status 404, and the only line printed is
  \<^verbatim>\<open>Message sent.\<close>
\<close>

theorem unreported_failure:
  "stdout (snd (snd (send (example_env 404) (example_bot, empty_world)))) = [''Message sent.'']
   \<and> fst (send (example_env 404) (example_bot, empty_world)) = Inr ()"
  by (simp add: send_def construct_message_eq send_content_def content_type_of_def
      example_env_def example_response_def example_bot_def empty_world_def print_line_def Let_def)

text \<open>
  C5, amended. With every network call answered by a response, whatever its status,
  \<^verbatim>\<open>send\<close> returns normally, and so does each transmission call it makes
  (\<^verbatim>\<open>/sendMessage\<close>, or \<^verbatim>\<open>/sendDocument\<close> with a string as the document):
  the call is issued once, the adapter is unchanged, and what is printed depends on the
  verbose flag: when it is set, a status above 300 prints the line
  \<^verbatim>\<open>Error while sending ...\<close> and the response text, and status 200 prints the
  \<^verbatim>\<open>... sent.\<close> line; when it is not set, nothing is printed.
\<close>

theorem status_never_raises:
  assumes net: "http E = (\<lambda>h q. Inr (respond h q))"
  shows "fst (send E (a, w)) = Inr ()
     \<and> ((method = ''/sendMessage'' \<and> c = ''Message body'')
          \<or> (method = ''/sendDocument'' \<and> message a ''document'' = Some (PStr d)
              \<and> c = ''Attachment: '' @ d)
        \<longrightarrow> send_content E method (a, w) =
          (Inr (),
           (a, w\<lparr>requests := requests w @ [Post (base_url a @ method) (message a)],
                  stdout := stdout w @
                    (if verbose a
                        \<and> status_code (respond (requests w) (Post (base_url a @ method) (message a))) = 200
                     then [timestamp E (w\<lparr>requests := requests w @ [Post (base_url a @ method) (message a)]\<rparr>)
                           @ '' '' @ c @ '' sent.'']
                     else if verbose a
                        \<and> status_code (respond (requests w) (Post (base_url a @ method) (message a))) > 300
                     then [timestamp E (w\<lparr>requests := requests w @ [Post (base_url a @ method) (message a)]\<rparr>)
                           @ '' '' @ ''Error while sending '' @ c,
                           text' (respond (requests w) (Post (base_url a @ method) (message a)))]
                     else [])\<rparr>)))"
proof -
  have 1: "fst (send E (a, w)) = Inr ()"
    using send_effect [OF net, of a w] by auto
  have 2: "content_type_of method (message a) = Inr (Some c)"
    if "(method = ''/sendMessage'' \<and> c = ''Message body'')
          \<or> (method = ''/sendDocument'' \<and> message a ''document'' = Some (PStr d)
              \<and> c = ''Attachment: '' @ d)"
    using that by (auto simp: content_type_of_def)
  show ?thesis
    using 1 send_content_returns [OF net 2, of w] by blast
qed

theorem status_never_raises_witness:
  "send_content (example_env 404) ''/sendMessage'' (example_bot\<lparr>verbose := True\<rparr>, empty_world) =
     (Inr (),
      (example_bot\<lparr>verbose := True\<rparr>,
       \<lparr>requests = [Post ''https://api.telegram.org/botTOKEN/sendMessage'' Map.empty],
        stdout = [''12:00:00 Error while sending Message body'', ''response text'']\<rparr>))
   \<and> fst (send (example_env 404) (example_bot\<lparr>verbose := True\<rparr>, empty_world)) = Inr ()"
proof -
  have net: "http (example_env 404) = (\<lambda>h q. Inr (example_response 404))"
    by (simp add: example_env_def)
  show ?thesis
    using status_never_raises [OF net, of "example_bot\<lparr>verbose := True\<rparr>" empty_world
        "''/sendMessage''" "''Message body''" "[]"]
    by (simp add: example_env_def example_response_def example_bot_def empty_world_def)
qed

text \<open>
  C6. \<^verbatim>\<open>send\<close> does not resolve the recipient handle. On an adapter with the
  handle \<^verbatim>\<open>@alice\<close> in \<^verbatim>\<open>to\<close> and no chat id, with a server on which
  \<^verbatim>\<open>get_chat_id\<close> finds the id 42 for that handle, \<^verbatim>\<open>send\<close> issues the
  single POST to \<^verbatim>\<open>/sendMessage\<close>, no \<^verbatim>\<open>getUpdates\<close> call, and the payload's
  \<^verbatim>\<open>chat_id\<close> is \<^verbatim>\<open>None\<close>.
\<close>

theorem send_without_lookup:
  "fst (get_chat_id lookup_env (Some ''@alice'')
          (example_bot\<lparr>chat_id := None, to := Some ''@alice'', attachments := []\<rparr>, empty_world)) =
      Inr (JNum 42)
   \<and> map (\<lambda>q. case q of Post u p \<Rightarrow> (u, p ''chat_id'') | Get u \<Rightarrow> (u, None))
        (requests (snd (snd (send lookup_env
           (example_bot\<lparr>chat_id := None, to := Some ''@alice'', attachments := []\<rparr>, empty_world))))) =
      [(''https://api.telegram.org/botTOKEN/sendMessage'', Some PNone)]"
proof -
  have net: "http lookup_env =
      (\<lambda>h q. Inr (case q of Get u \<Rightarrow> updates_response | Post u p \<Rightarrow> example_response 400))"
    by (auto simp: lookup_env_def fun_eq_iff split: request.splits)
  have 1: "fst (get_chat_id lookup_env (Some ''@alice'')
          (example_bot\<lparr>chat_id := None, to := Some ''@alice'', attachments := []\<rparr>, empty_world)) =
      Inr (JNum 42)"
    by (simp add: get_chat_id_def lookup_env_def updates_response_def subscript_def iterate_def
        from_field_def Let_def)
  show ?thesis
    using send_effect [OF net, of "example_bot\<lparr>chat_id := None, to := Some ''@alice'', attachments := []\<rparr>" empty_world] 1
    by (auto simp: construct_message_eq example_bot_def empty_world_def py_of_def)
qed




text \<open>
  C8. \<^verbatim>\<open>construct_message\<close> returns normally, leaves the world as it was (no
  network call, nothing printed) and changes no attribute of the adapter other than
  \<^verbatim>\<open>message\<close>.
\<close>

theorem construct_message_frame:
  "fst (construct_message (a, w)) = Inr ()
   \<and> snd (snd (construct_message (a, w))) = w
   \<and> fst (snd (construct_message (a, w))) =
       a\<lparr>message := message (fst (snd (construct_message (a, w))))\<rparr>
   \<and> from' (fst (snd (construct_message (a, w)))) = from' a
   \<and> to (fst (snd (construct_message (a, w)))) = to a
   \<and> chat_id (fst (snd (construct_message (a, w)))) = chat_id a
   \<and> subject (fst (snd (construct_message (a, w)))) = subject a
   \<and> body (fst (snd (construct_message (a, w)))) = body a
   \<and> attachments (fst (snd (construct_message (a, w)))) = attachments a
   \<and> params (fst (snd (construct_message (a, w)))) = params a
   \<and> base_url (fst (snd (construct_message (a, w)))) = base_url a
   \<and> verbose (fst (snd (construct_message (a, w)))) = verbose a
   \<and> credentials (fst (snd (construct_message (a, w)))) = credentials a"
  by (simp add: construct_message_eq)

theorem construct_message_frame_witness:
  "snd (snd (construct_message (example_bot, empty_world))) = empty_world
   \<and> attachments (fst (snd (construct_message (example_bot, empty_world)))) = [''a.pdf'', ''b.pdf'']
   \<and> verbose (fst (snd (construct_message (example_bot, empty_world)))) = False"
  using construct_message_frame [of example_bot empty_world]
  by (simp add: example_bot_def)

text \<open>
  C10. Calling \<^verbatim>\<open>construct_message\<close> a second time changes nothing: the
  outcome and the state, the payload included, are those of the first call. The text is
  set to the empty string first and built again from the same attributes.
\<close>

theorem construct_message_idempotent:
  "construct_message (snd (construct_message s)) = construct_message s"
proof (cases s)
  case (Pair a w)
  have "((m(''chat_id'' \<mapsto> c, ''text'' \<mapsto> t) ++ p)(''chat_id'' \<mapsto> c, ''text'' \<mapsto> t)) ++ p
        = m(''chat_id'' \<mapsto> c, ''text'' \<mapsto> t) ++ p" for m :: pydict and c t p
    by (rule ext) (simp add: map_add_def split: option.splits)
  then show ?thesis
    by (simp add: Pair construct_message_eq)
qed

theorem construct_message_idempotent_witness:
  "construct_message (snd (construct_message (example_bot, empty_world))) =
     construct_message (example_bot, empty_world)"
  using construct_message_idempotent [of "(example_bot, empty_world)"] by simp

end
